theory Spec2Isabelle
  imports Main "HOL-Library.AList" "HOL-Library.Sublist"
begin

section \<open>Values, dictionaries and decimal text\<close>

text \<open>
  The server (\<^verbatim>\<open>server.py\<close>) relays tool calls to the Adzuna REST API. Query
  parameters are Python dictionaries from strings to strings and integers; a
  dictionary keeps its keys in insertion order, and an assignment to a key that
  is already there replaces the value in place. It is modelled as an association
  list with \<^const>\<open>AList.update\<close>.
\<close>

datatype pyval = PNone | PBool bool | PInt int | PStr string

type_synonym params = "(string \<times> pyval) list"

definition dict_set :: "string \<Rightarrow> pyval \<Rightarrow> params \<Rightarrow> params" where
  \<comment> \<open>\<^verbatim>\<open>d[k] = v\<close>\<close>
  "dict_set k v d = AList.update k v d"

definition dict_update :: "params \<Rightarrow> params \<Rightarrow> params" where
  \<comment> \<open>\<^verbatim>\<open>d.update(other)\<close>: the items of \<^verbatim>\<open>other\<close>, assigned in their order\<close>
  "dict_update d other = fold (\<lambda>(k, v). dict_set k v) other d"

text \<open>
  Python's \<^verbatim>\<open>str\<close> of an integer, as an f-string interpolates it: the decimal
  digits, after a minus sign for a negative number.
\<close>

definition digit_char :: "nat \<Rightarrow> char" where
  "digit_char d = ''0123456789'' ! d"

function str_nat :: "nat \<Rightarrow> string" where
  "str_nat n = (if n < 10 then [digit_char n] else str_nat (n div 10) @ [digit_char (n mod 10)])"
  by pat_completeness auto
termination
  by (relation "measure id") auto

declare str_nat.simps [simp del]

definition str_int :: "int \<Rightarrow> string" where
  "str_int i = (if i < 0 then CHR ''-'' # str_nat (nat (- i)) else str_nat (nat i))"


section \<open>JSON values and their text\<close>

text \<open>
  The value \<^verbatim>\<open>response.json()\<close> returns. A float is carried as the text Python
  prints for it; floating-point arithmetic plays no part in the server.
\<close>

datatype json =
    JNull
  | JBool bool
  | JInt int
  | JFloat string
  | JStr string
  | JArr "json list"
  | JObj "(string \<times> json) list"

definition hex_digit :: "nat \<Rightarrow> char" where
  "hex_digit d = ''0123456789abcdef'' ! d"

definition printable :: "char \<Rightarrow> bool" where
  \<comment> \<open>\<^verbatim>\<open>str.isprintable\<close> on the code points below 256\<close>
  "printable c = (let n = (of_char c :: nat) in (32 \<le> n \<and> n < 127) \<or> (161 \<le> n \<and> n \<noteq> 173))"

definition escape_char :: "char \<Rightarrow> char \<Rightarrow> string" where
  "escape_char q c =
     (if c = q \<or> c = CHR 0x5C then [CHR 0x5C, c]
      else if c = CHR 0x09 then [CHR 0x5C, CHR ''t'']
      else if c = CHR 0x0A then [CHR 0x5C, CHR ''n'']
      else if c = CHR 0x0D then [CHR 0x5C, CHR ''r'']
      else if printable c then [c]
      else [CHR 0x5C, CHR ''x'', hex_digit ((of_char c :: nat) div 16), hex_digit ((of_char c :: nat) mod 16)])"

definition repr_str :: "string \<Rightarrow> string" where
  \<comment> \<open>\<^verbatim>\<open>repr\<close> of a \<^verbatim>\<open>str\<close>: double quotes only when the text has a single quote and no double quote\<close>
  "repr_str s =
     (let q = (if CHR 0x27 \<in> set s \<and> CHR 0x22 \<notin> set s then CHR 0x22 else CHR 0x27)
      in q # concat (map (escape_char q) s) @ [q])"

fun join :: "string \<Rightarrow> string list \<Rightarrow> string" where
  "join sep [] = []"
| "join sep [x] = x"
| "join sep (x # y # ys) = x @ sep @ join sep (y # ys)"

fun py_repr :: "json \<Rightarrow> string"
  and repr_items :: "json list \<Rightarrow> string list"
  and repr_pairs :: "(string \<times> json) list \<Rightarrow> string list" where
  "py_repr JNull = ''None''"
| "py_repr (JBool b) = (if b then ''True'' else ''False'')"
| "py_repr (JInt i) = str_int i"
| "py_repr (JFloat t) = t"
| "py_repr (JStr s) = repr_str s"
| "py_repr (JArr xs) = ''['' @ join '', '' (repr_items xs) @ '']''"
| "py_repr (JObj kvs) = ''{'' @ join '', '' (repr_pairs kvs) @ ''}''"
| "repr_items [] = []"
| "repr_items (x # xs) = py_repr x # repr_items xs"
| "repr_pairs [] = []"
| "repr_pairs ((k, v) # kvs) = (repr_str k @ '': '' @ py_repr v) # repr_pairs kvs"

definition py_str :: "json \<Rightarrow> string" where
  \<comment> \<open>what an f-string puts in place of \<^verbatim>\<open>{v}\<close>\<close>
  "py_str v = (case v of JStr s \<Rightarrow> s | _ \<Rightarrow> py_repr v)"

section \<open>Errors, credentials and the start of the process\<close>

datatype error =
    ValueError string
  | PyException string
  | JSONDecodeError
  | AttributeError
  | TransportError string

record credentials =
  app_id :: string
  app_key :: string

definition BASE_URL :: string where
  "BASE_URL = ''https://api.adzuna.com/v1/api''"

definition missing_credentials_message :: string where
  "missing_credentials_message =
     ''Missing Adzuna API credentials. '' @
     ''Please set ADZUNA_APP_ID and ADZUNA_APP_KEY in your .env file.''"

definition falsy_env :: "string option \<Rightarrow> bool" where
  \<comment> \<open>\<^verbatim>\<open>not os.getenv(name)\<close>: the variable is unset or empty\<close>
  "falsy_env x = (case x of None \<Rightarrow> True | Some s \<Rightarrow> s = [])"

definition startup :: "(string \<Rightarrow> string option) \<Rightarrow> error + credentials" where
  \<comment> \<open>the module's top level, on the environment \<^verbatim>\<open>load_dotenv\<close> has filled\<close>
  "startup env =
     (let ADZUNA_APP_ID = env ''ADZUNA_APP_ID'';
          ADZUNA_APP_KEY = env ''ADZUNA_APP_KEY''
      in if falsy_env ADZUNA_APP_ID \<or> falsy_env ADZUNA_APP_KEY
         then Inl (ValueError missing_credentials_message)
         else Inr \<lparr>app_id = the ADZUNA_APP_ID, app_key = the ADZUNA_APP_KEY\<rparr>)"

definition get_auth_params :: "credentials \<Rightarrow> params" where
  "get_auth_params cfg = [(''app_id'', PStr (app_id cfg)), (''app_key'', PStr (app_key cfg))]"

section \<open>The request dispatcher\<close>

text \<open>
  The network is a function from the request to the response or to the failure of
  the transport. Every operation returns the list of the requests it issued
  together with its outcome.
\<close>

record request =
  url :: string
  query :: params
  timeout :: nat

record response =
  status_code :: int
  json_body :: "json option"

type_synonym network = "request \<Rightarrow> error + response"

definition response_json :: "response \<Rightarrow> error + json" where
  \<comment> \<open>\<^verbatim>\<open>response.json()\<close> raises when the body is not JSON\<close>
  "response_json r = (case json_body r of None \<Rightarrow> Inl JSONDecodeError | Some j \<Rightarrow> Inr j)"

definition json_get :: "json \<Rightarrow> string \<Rightarrow> json \<Rightarrow> error + json" where
  \<comment> \<open>\<^verbatim>\<open>data.get(key, default)\<close>: only a JSON object has the method\<close>
  "json_get j k d =
     (case j of
        JObj kvs \<Rightarrow> Inr (case map_of kvs k of None \<Rightarrow> d | Some v \<Rightarrow> v)
      | _ \<Rightarrow> Inl AttributeError)"

definition make_request :: "credentials \<Rightarrow> network \<Rightarrow> string \<Rightarrow> params option \<Rightarrow> request list \<times> (error + json)" where
  "make_request cfg net endpoint params =
     (let auth_params = get_auth_params cfg;
          auth_params = (case params of
                           None \<Rightarrow> auth_params
                         | Some d \<Rightarrow> if d \<noteq> [] then dict_update auth_params d else auth_params);
          req = \<lparr>url = BASE_URL @ ''/'' @ endpoint, query = auth_params, timeout = 30\<rparr>
      in ([req],
          case net req of
            Inl e \<Rightarrow> Inl e
          | Inr r \<Rightarrow>
              if status_code r \<noteq> 200 then
                (case response_json r of
                   Inl e \<Rightarrow> Inl e
                 | Inr error_data \<Rightarrow>
                     (case json_get error_data ''display'' (JStr ''Unknown error'') of
                        Inl e \<Rightarrow> Inl e
                      | Inr d \<Rightarrow>
                          Inl (PyException (''API Error '' @ str_int (status_code r) @ '': '' @ py_str d))))
              else response_json r))"

section \<open>The tool wrappers\<close>

text \<open>
  A wrapper adds an optional argument to its dictionary under a truth test:
  \<^verbatim>\<open>if keywords: params["what"] = keywords\<close>. \<^verbatim>\<open>None\<close>, the empty string, zero and
  \<^verbatim>\<open>False\<close> all fail the test.
\<close>

definition set_str :: "string \<Rightarrow> string option \<Rightarrow> params \<Rightarrow> params" where
  "set_str k x d = (case x of None \<Rightarrow> d | Some s \<Rightarrow> if s \<noteq> [] then dict_set k (PStr s) d else d)"

definition set_int :: "string \<Rightarrow> int option \<Rightarrow> params \<Rightarrow> params" where
  "set_int k x d = (case x of None \<Rightarrow> d | Some i \<Rightarrow> if i \<noteq> 0 then dict_set k (PInt i) d else d)"

definition set_flag :: "string \<Rightarrow> bool option \<Rightarrow> params \<Rightarrow> params" where
  \<comment> \<open>\<^verbatim>\<open>if full_time: params["full_time"] = "1"\<close>\<close>
  "set_flag k x d = (case x of None \<Rightarrow> d | Some b \<Rightarrow> if b then dict_set k (PStr ''1'') d else d)"

record search_args =
  country :: string
  keywords_arg :: "string option"
  location :: "string option"
  page :: int
  results_per_page :: int
  salary_min :: "int option"
  salary_max :: "int option"
  full_time :: "bool option"
  part_time :: "bool option"
  contract :: "bool option"
  permanent :: "bool option"
  category :: "string option"
  sort_by :: "string option"
  max_days_old :: "int option"

definition default_search_args :: "string \<Rightarrow> search_args" where
  \<comment> \<open>the defaults of the signature of \<^verbatim>\<open>search_jobs\<close>\<close>
  "default_search_args c =
     \<lparr>country = c, keywords_arg = None, location = None, page = 1, results_per_page = 10,
      salary_min = None, salary_max = None, full_time = None, part_time = None,
      contract = None, permanent = None, category = None, sort_by = None,
      max_days_old = None\<rparr>"

definition search_jobs_params :: "search_args \<Rightarrow> params" where
  "search_jobs_params a =
     (let params = [(''results_per_page'', PInt (results_per_page a))];
          params = set_str ''what'' (keywords_arg a) params;
          params = set_str ''where'' (location a) params;
          params = set_int ''salary_min'' (salary_min a) params;
          params = set_int ''salary_max'' (salary_max a) params;
          params = set_flag ''full_time'' (full_time a) params;
          params = set_flag ''part_time'' (part_time a) params;
          params = set_flag ''contract'' (contract a) params;
          params = set_flag ''permanent'' (permanent a) params;
          params = set_str ''category'' (category a) params;
          params = set_str ''sort_by'' (sort_by a) params;
          params = set_int ''max_days_old'' (max_days_old a) params
      in params)"

definition search_jobs_endpoint :: "search_args \<Rightarrow> string" where
  "search_jobs_endpoint a = ''jobs/'' @ country a @ ''/search/'' @ str_int (page a)"

definition search_jobs :: "credentials \<Rightarrow> network \<Rightarrow> search_args \<Rightarrow> request list \<times> (error + json)" where
  "search_jobs cfg net a = make_request cfg net (search_jobs_endpoint a) (Some (search_jobs_params a))"

definition get_categories :: "credentials \<Rightarrow> network \<Rightarrow> string \<Rightarrow> request list \<times> (error + json)" where
  "get_categories cfg net c = make_request cfg net (''jobs/'' @ c @ ''/categories'') None"

definition filter_params :: "string option \<Rightarrow> string option \<Rightarrow> string option \<Rightarrow> params" where
  \<comment> \<open>the dictionary of \<^verbatim>\<open>get_salary_histogram\<close>, \<^verbatim>\<open>get_top_companies\<close> and \<^verbatim>\<open>get_geodata\<close>\<close>
  "filter_params kw loc cat =
     (let params = [];
          params = set_str ''what'' kw params;
          params = set_str ''where'' loc params;
          params = set_str ''category'' cat params
      in params)"

definition get_salary_histogram ::
  "credentials \<Rightarrow> network \<Rightarrow> string \<Rightarrow> string option \<Rightarrow> string option \<Rightarrow> string option \<Rightarrow> request list \<times> (error + json)" where
  "get_salary_histogram cfg net c kw loc cat =
     make_request cfg net (''jobs/'' @ c @ ''/histogram'') (Some (filter_params kw loc cat))"

definition get_top_companies ::
  "credentials \<Rightarrow> network \<Rightarrow> string \<Rightarrow> string option \<Rightarrow> string option \<Rightarrow> string option \<Rightarrow> request list \<times> (error + json)" where
  "get_top_companies cfg net c kw loc cat =
     make_request cfg net (''jobs/'' @ c @ ''/top_companies'') (Some (filter_params kw loc cat))"

definition get_geodata ::
  "credentials \<Rightarrow> network \<Rightarrow> string \<Rightarrow> string option \<Rightarrow> string option \<Rightarrow> string option \<Rightarrow> request list \<times> (error + json)" where
  "get_geodata cfg net c kw loc cat =
     make_request cfg net (''jobs/'' @ c @ ''/geodata'') (Some (filter_params kw loc cat))"

definition salary_history_params :: "string option \<Rightarrow> string option \<Rightarrow> string option \<Rightarrow> int option \<Rightarrow> params" where
  "salary_history_params kw loc cat months =
     (let params = [];
          params = set_str ''what'' kw params;
          params = set_str ''where'' loc params;
          params = set_str ''category'' cat params;
          params = set_int ''months'' months params
      in params)"

definition get_salary_history ::
  "credentials \<Rightarrow> network \<Rightarrow> string \<Rightarrow> string option \<Rightarrow> string option \<Rightarrow> string option \<Rightarrow> int option \<Rightarrow> request list \<times> (error + json)" where
  "get_salary_history cfg net c kw loc cat months =
     make_request cfg net (''jobs/'' @ c @ ''/history'') (Some (salary_history_params kw loc cat months))"

definition get_api_version :: "credentials \<Rightarrow> network \<Rightarrow> request list \<times> (error + json)" where
  "get_api_version cfg net = make_request cfg net ''version'' None"

text \<open>The seven tools the server registers, and the call of one of them.\<close>

datatype tool_call =
    SearchJobs search_args
  | GetCategories string
  | GetSalaryHistogram string "string option" "string option" "string option"
  | GetTopCompanies string "string option" "string option" "string option"
  | GetGeodata string "string option" "string option" "string option"
  | GetSalaryHistory string "string option" "string option" "string option" "int option"
  | GetApiVersion

fun call_tool :: "credentials \<Rightarrow> network \<Rightarrow> tool_call \<Rightarrow> request list \<times> (error + json)" where
  "call_tool cfg net (SearchJobs a) = search_jobs cfg net a"
| "call_tool cfg net (GetCategories c) = get_categories cfg net c"
| "call_tool cfg net (GetSalaryHistogram c kw loc cat) = get_salary_histogram cfg net c kw loc cat"
| "call_tool cfg net (GetTopCompanies c kw loc cat) = get_top_companies cfg net c kw loc cat"
| "call_tool cfg net (GetGeodata c kw loc cat) = get_geodata cfg net c kw loc cat"
| "call_tool cfg net (GetSalaryHistory c kw loc cat m) = get_salary_history cfg net c kw loc cat m"
| "call_tool cfg net GetApiVersion = get_api_version cfg net"

fun tool_params :: "tool_call \<Rightarrow> params option" where
  \<comment> \<open>the dictionary each wrapper hands to \<^const>\<open>make_request\<close>\<close>
  "tool_params (SearchJobs a) = Some (search_jobs_params a)"
| "tool_params (GetCategories c) = None"
| "tool_params (GetSalaryHistogram c kw loc cat) = Some (filter_params kw loc cat)"
| "tool_params (GetTopCompanies c kw loc cat) = Some (filter_params kw loc cat)"
| "tool_params (GetGeodata c kw loc cat) = Some (filter_params kw loc cat)"
| "tool_params (GetSalaryHistory c kw loc cat m) = Some (salary_history_params kw loc cat m)"
| "tool_params GetApiVersion = None"

fun tool_endpoint :: "tool_call \<Rightarrow> string" where
  "tool_endpoint (SearchJobs a) = search_jobs_endpoint a"
| "tool_endpoint (GetCategories c) = ''jobs/'' @ c @ ''/categories''"
| "tool_endpoint (GetSalaryHistogram c kw loc cat) = ''jobs/'' @ c @ ''/histogram''"
| "tool_endpoint (GetTopCompanies c kw loc cat) = ''jobs/'' @ c @ ''/top_companies''"
| "tool_endpoint (GetGeodata c kw loc cat) = ''jobs/'' @ c @ ''/geodata''"
| "tool_endpoint (GetSalaryHistory c kw loc cat m) = ''jobs/'' @ c @ ''/history''"
| "tool_endpoint GetApiVersion = ''version''"

section \<open>Vocabulary of the properties\<close>

definition always :: "response \<Rightarrow> network" where
  \<comment> \<open>the network of the tests' mock client: one fixed response to every request\<close>
  "always r q = Inr r"

definition test_credentials :: credentials where
  "test_credentials = \<lparr>app_id = ''test_app_id'', app_key = ''test_app_key''\<rparr>"

definition no_empty_values :: "params \<Rightarrow> bool" where
  \<comment> \<open>no entry of the dictionary holds \<^verbatim>\<open>None\<close> or the empty string\<close>
  "no_empty_values d = (\<forall>(k, v) \<in> set d. v \<noteq> PNone \<and> v \<noteq> PStr [])"

definition key_if_unset :: "string \<Rightarrow> 'a option \<Rightarrow> string list" where
  "key_if_unset k x = (case x of None \<Rightarrow> [k] | Some y \<Rightarrow> [])"

fun unset_keys :: "tool_call \<Rightarrow> string list" where
  \<comment> \<open>the query keys of the optional arguments a call leaves at \<^verbatim>\<open>None\<close>\<close>
  "unset_keys (SearchJobs a) =
     key_if_unset ''what'' (keywords_arg a) @ key_if_unset ''where'' (location a) @
     key_if_unset ''salary_min'' (salary_min a) @ key_if_unset ''salary_max'' (salary_max a) @
     key_if_unset ''full_time'' (full_time a) @ key_if_unset ''part_time'' (part_time a) @
     key_if_unset ''contract'' (contract a) @ key_if_unset ''permanent'' (permanent a) @
     key_if_unset ''category'' (category a) @ key_if_unset ''sort_by'' (sort_by a) @
     key_if_unset ''max_days_old'' (max_days_old a)"
| "unset_keys (GetCategories c) = []"
| "unset_keys (GetSalaryHistogram c kw loc cat) =
     key_if_unset ''what'' kw @ key_if_unset ''where'' loc @ key_if_unset ''category'' cat"
| "unset_keys (GetTopCompanies c kw loc cat) =
     key_if_unset ''what'' kw @ key_if_unset ''where'' loc @ key_if_unset ''category'' cat"
| "unset_keys (GetGeodata c kw loc cat) =
     key_if_unset ''what'' kw @ key_if_unset ''where'' loc @ key_if_unset ''category'' cat"
| "unset_keys (GetSalaryHistory c kw loc cat m) =
     key_if_unset ''what'' kw @ key_if_unset ''where'' loc @ key_if_unset ''category'' cat @
     key_if_unset ''months'' m"
| "unset_keys GetApiVersion = []"

text \<open>Reading decimal text back, to say that a number is written out in full.\<close>

definition digit_val :: "char \<Rightarrow> nat" where
  "digit_val c = of_char c - 48"

definition parse_nat :: "string \<Rightarrow> nat" where
  "parse_nat s = foldl (\<lambda>acc c. 10 * acc + digit_val c) 0 s"

definition parse_int :: "string \<Rightarrow> int" where
  "parse_int s = (case s of [] \<Rightarrow> 0 | c # t \<Rightarrow> if c = CHR ''-'' then - int (parse_nat t) else int (parse_nat s))"

section \<open>Dictionaries\<close>

lemma map_of_dict_set: "map_of (dict_set k v d) = (map_of d)(k \<mapsto> v)"
  by (simp add: dict_set_def update_conv')

lemma distinct_dict_set: "distinct (map fst d) \<Longrightarrow> distinct (map fst (dict_set k v d))"
  by (simp add: dict_set_def distinct_update)

lemma set_dict_set: "set (dict_set k v d) \<subseteq> insert (k, v) (set d)"
  unfolding dict_set_def by (induction d) auto

lemma dict_update_Cons: "dict_update d ((k, v) # other) = dict_update (dict_set k v d) other"
  by (simp add: dict_update_def)

lemma map_of_dict_update:
  "distinct (map fst other) \<Longrightarrow> map_of (dict_update d other) = map_of d ++ map_of other"
proof (induction other arbitrary: d)
  case Nil
  then show ?case by (simp add: dict_update_def)
next
  case (Cons p other)
  obtain k v where p: "p = (k, v)" by (cases p)
  from Cons.prems p have notin: "map_of other k = None" and dist: "distinct (map fst other)"
    by (auto simp: map_of_eq_None_iff)
  have "map_of (dict_update d (p # other)) = map_of (dict_update (dict_set k v d) other)"
    by (simp only: p dict_update_Cons)
  also have "\<dots> = map_of (dict_set k v d) ++ map_of other"
    by (rule Cons.IH [OF dist])
  also have "\<dots> = (map_of d)(k \<mapsto> v) ++ map_of other"
    by (simp only: map_of_dict_set)
  also have "\<dots> = map_of d ++ map_of (p # other)"
    using notin by (auto simp: p map_add_def fun_eq_iff split: option.splits)
  finally show ?case .
qed

lemma distinct_dict_update:
  "distinct (map fst d) \<Longrightarrow> distinct (map fst (dict_update d other))"
proof (induction other arbitrary: d)
  case Nil
  then show ?case by (simp add: dict_update_def)
next
  case (Cons p other)
  obtain k v where p: "p = (k, v)" by (cases p)
  show ?case
    using Cons.IH [OF distinct_dict_set [OF Cons.prems]] by (simp only: p dict_update_Cons)
qed

subsection \<open>The conditional assignments of the wrappers\<close>

lemma lookup_set_str:
  "map_of (set_str k x d) k' =
     (if k' = k \<and> x \<noteq> None \<and> x \<noteq> Some [] then Some (PStr (the x)) else map_of d k')"
  by (auto simp: set_str_def map_of_dict_set split: option.splits)

lemma lookup_set_int:
  "map_of (set_int k x d) k' =
     (if k' = k \<and> x \<noteq> None \<and> x \<noteq> Some 0 then Some (PInt (the x)) else map_of d k')"
  by (auto simp: set_int_def map_of_dict_set split: option.splits)

lemma lookup_set_flag:
  "map_of (set_flag k x d) k' =
     (if k' = k \<and> x = Some True then Some (PStr ''1'') else map_of d k')"
  by (auto simp: set_flag_def map_of_dict_set split: option.splits)

lemmas lookup_set = lookup_set_str lookup_set_int lookup_set_flag

lemma distinct_set_str: "distinct (map fst d) \<Longrightarrow> distinct (map fst (set_str k x d))"
  by (simp add: set_str_def distinct_dict_set split: option.splits)

lemma distinct_set_int: "distinct (map fst d) \<Longrightarrow> distinct (map fst (set_int k x d))"
  by (simp add: set_int_def distinct_dict_set split: option.splits)

lemma distinct_set_flag: "distinct (map fst d) \<Longrightarrow> distinct (map fst (set_flag k x d))"
  by (simp add: set_flag_def distinct_dict_set split: option.splits)

lemmas distinct_set = distinct_set_str distinct_set_int distinct_set_flag

lemma clean_dict_set:
  "no_empty_values d \<Longrightarrow> v \<noteq> PNone \<Longrightarrow> v \<noteq> PStr [] \<Longrightarrow> no_empty_values (dict_set k v d)"
  using set_dict_set [of k v d] unfolding no_empty_values_def by blast

lemma clean_set_str: "no_empty_values d \<Longrightarrow> no_empty_values (set_str k x d)"
  by (simp add: set_str_def clean_dict_set split: option.splits)

lemma clean_set_int: "no_empty_values d \<Longrightarrow> no_empty_values (set_int k x d)"
  by (simp add: set_int_def clean_dict_set split: option.splits)

lemma clean_set_flag: "no_empty_values d \<Longrightarrow> no_empty_values (set_flag k x d)"
  by (simp add: set_flag_def clean_dict_set split: option.splits)

lemmas clean_set = clean_set_str clean_set_int clean_set_flag

section \<open>The dispatcher\<close>

lemma make_request_requests:
  "fst (make_request cfg net ep ps) =
     [\<lparr>url = BASE_URL @ ''/'' @ ep,
       query = (case ps of None \<Rightarrow> get_auth_params cfg
                | Some d \<Rightarrow> if d \<noteq> [] then dict_update (get_auth_params cfg) d else get_auth_params cfg),
       timeout = 30\<rparr>]"
  by (simp add: make_request_def Let_def)

lemma make_request_result:
  assumes "fst (make_request cfg net ep ps) = [req]"
  shows "snd (make_request cfg net ep ps) =
     (case net req of
        Inl e \<Rightarrow> Inl e
      | Inr r \<Rightarrow>
          if status_code r \<noteq> 200 then
            (case response_json r of
               Inl e \<Rightarrow> Inl e
             | Inr error_data \<Rightarrow>
                 (case json_get error_data ''display'' (JStr ''Unknown error'') of
                    Inl e \<Rightarrow> Inl e
                  | Inr d \<Rightarrow>
                      Inl (PyException (''API Error '' @ str_int (status_code r) @ '': '' @ py_str d))))
          else response_json r)"
  using assms by (simp add: make_request_def Let_def)

lemma str_int_401: "str_int 401 = ''401''"
  by (simp add: str_int_def str_nat.simps digit_char_def)

text \<open>
  C1, as the code has it. The dispatcher returns a value exactly when the
  response has status 200 and a body that parses as JSON, and the value is that
  body. The test is \<^verbatim>\<open>status_code != 200\<close>: every other status, the rest of the
  2xx range included, makes the call fail.
\<close>

theorem make_request_success_iff_200:
  assumes "fst (make_request cfg net ep ps) = [req]" and "net req = Inr r"
  shows "(snd (make_request cfg net ep ps) = Inr j) = (status_code r = 200 \<and> json_body r = Some j)"
  using assms(2) unfolding make_request_result [OF assms(1)]
  by (auto simp: response_json_def json_get_def split: option.splits sum.splits json.splits)

theorem make_request_success_iff_200_witness:
  "snd (make_request test_credentials
          (always \<lparr>status_code = 200, json_body = Some (JObj [(''count'', JInt 523)])\<rparr>)
          ''jobs/gb/search/1'' None)
     = Inr (JObj [(''count'', JInt 523)])"
  using make_request_success_iff_200
    [of test_credentials
        "always \<lparr>status_code = 200, json_body = Some (JObj [(''count'', JInt 523)])\<rparr>"
        "''jobs/gb/search/1''" None
        "\<lparr>url = BASE_URL @ ''/'' @ ''jobs/gb/search/1'', query = get_auth_params test_credentials, timeout = 30\<rparr>"
        "\<lparr>status_code = 200, json_body = Some (JObj [(''count'', JInt 523)])\<rparr>"
        "JObj [(''count'', JInt 523)]"]
  by (simp add: make_request_requests always_def)

text \<open>
  C1 as the specification states it fails at status 201, which lies in
  [200,299]: the call raises instead of returning the body.
\<close>

theorem make_request_201_counterexample:
  "(200::int) \<le> 201 \<and> (201::int) \<le> 299 \<and>
   snd (make_request test_credentials
          (always \<lparr>status_code = 201, json_body = Some (JObj [(''count'', JInt 523)])\<rparr>)
          ''jobs/gb/search/1'' None)
     = Inl (PyException ''API Error 201: Unknown error'')"
  by (simp add: make_request_def Let_def always_def response_json_def json_get_def py_str_def
      str_int_def str_nat.simps digit_char_def)

text \<open>
  What the error path does on every response whose status is not 200. A body
  that is a JSON object gives the message \<^verbatim>\<open>API Error {status}: {display}\<close>, with
  \<^verbatim>\<open>Unknown error\<close> in place of a missing \<^verbatim>\<open>display\<close> field. A body that is not JSON
  stops at \<^verbatim>\<open>response.json()\<close>, and a JSON body that is not an object stops at
  \<^verbatim>\<open>.get\<close>: neither reaches the message.
\<close>

lemma make_request_error_message:
  assumes "fst (make_request cfg net ep ps) = [req]" and "net req = Inr r"
    and "status_code r \<noteq> 200"
  shows "(json_body r = None \<longrightarrow> snd (make_request cfg net ep ps) = Inl JSONDecodeError) \<and>
         (\<forall>j. json_body r = Some j \<longrightarrow> (\<forall>kvs. j \<noteq> JObj kvs) \<longrightarrow>
            snd (make_request cfg net ep ps) = Inl AttributeError) \<and>
         (\<forall>kvs. json_body r = Some (JObj kvs) \<longrightarrow>
            (\<exists>m. snd (make_request cfg net ep ps) = Inl (PyException m) \<and>
                 m = ''API Error '' @ str_int (status_code r) @ '': '' @
                       (case map_of kvs ''display'' of None \<Rightarrow> ''Unknown error'' | Some v \<Rightarrow> py_str v) \<and>
                 sublist (str_int (status_code r)) m \<and>
                 (\<forall>s. map_of kvs ''display'' = Some (JStr s) \<longrightarrow> sublist s m) \<and>
                 (map_of kvs ''display'' = None \<longrightarrow> sublist ''Unknown error'' m)))"
proof (intro conjI allI impI)
  assume "json_body r = None"
  then show "snd (make_request cfg net ep ps) = Inl JSONDecodeError"
    using assms(2,3) unfolding make_request_result [OF assms(1)]
    by (simp add: response_json_def)
next
  fix j
  assume "json_body r = Some j" and "\<forall>kvs. j \<noteq> JObj kvs"
  then show "snd (make_request cfg net ep ps) = Inl AttributeError"
    using assms(2,3) unfolding make_request_result [OF assms(1)]
    by (cases j) (simp_all add: response_json_def json_get_def)
next
  fix kvs
  assume body: "json_body r = Some (JObj kvs)"
  let ?d = "case map_of kvs ''display'' of None \<Rightarrow> ''Unknown error'' | Some v \<Rightarrow> py_str v"
  let ?m = "''API Error '' @ str_int (status_code r) @ '': '' @ ?d"
  have res: "snd (make_request cfg net ep ps) = Inl (PyException ?m)"
    using assms(2,3) body unfolding make_request_result [OF assms(1)]
    by (simp add: response_json_def json_get_def py_str_def split: option.splits)
  have st: "sublist (str_int (status_code r)) ?m"
    unfolding sublist_def by blast
  have tail: "sublist ?d ?m"
    by (metis sublist_appendI append.assoc append_Nil2)
  have str: "\<forall>s. map_of kvs ''display'' = Some (JStr s) \<longrightarrow> sublist s ?m"
    using tail by (auto simp: py_str_def)
  have dflt: "map_of kvs ''display'' = None \<longrightarrow> sublist ''Unknown error'' ?m"
    using tail by auto
  show "\<exists>m. snd (make_request cfg net ep ps) = Inl (PyException m) \<and>
            m = ?m \<and> sublist (str_int (status_code r)) m \<and>
            (\<forall>s. map_of kvs ''display'' = Some (JStr s) \<longrightarrow> sublist s m) \<and>
            (map_of kvs ''display'' = None \<longrightarrow> sublist ''Unknown error'' m)"
    by (rule exI [of _ ?m], intro conjI, rule res, rule refl, rule st, rule str, rule dflt)
qed

lemma make_request_401_invalid_credentials:
  "snd (make_request test_credentials
          (always \<lparr>status_code = 401, json_body = Some (JObj [(''display'', JStr ''Invalid credentials'')])\<rparr>)
          ''jobs/gb/search/1'' None)
     = Inl (PyException ''API Error 401: Invalid credentials'') \<and>
   sublist ''401'' ''API Error 401: Invalid credentials'' \<and>
   sublist ''Invalid credentials'' ''API Error 401: Invalid credentials''"
  using make_request_error_message
    [of test_credentials
        "always \<lparr>status_code = 401, json_body = Some (JObj [(''display'', JStr ''Invalid credentials'')])\<rparr>"
        "''jobs/gb/search/1''" None
        "\<lparr>url = BASE_URL @ ''/'' @ ''jobs/gb/search/1'', query = get_auth_params test_credentials, timeout = 30\<rparr>"
        "\<lparr>status_code = 401, json_body = Some (JObj [(''display'', JStr ''Invalid credentials'')])\<rparr>"]
  by (simp add: make_request_requests always_def str_int_401 py_str_def)

text \<open>
  C2 asks that every response outside the success range fail with a message
  holding the status and the \<^verbatim>\<open>display\<close> text, or a placeholder when the body has
  no such field or is not JSON. The code breaks this where the body is not a
  JSON object. At status 500 with a body that is not JSON the call raises the
  decoding error; at status 404 with the JSON string \<^verbatim>\<open>"Not Found"\<close> and at status
  502 with the JSON array \<^verbatim>\<open>[]\<close> it raises the attribute error of \<^verbatim>\<open>.get\<close>. None of
  the three is the \<^verbatim>\<open>API Error\<close> exception, and none carries the status or the
  placeholder.
\<close>

theorem make_request_error_body_failure:
  "snd (make_request test_credentials (always \<lparr>status_code = 500, json_body = None\<rparr>)
          ''jobs/gb/search/1'' None) = Inl JSONDecodeError \<and>
   snd (make_request test_credentials (always \<lparr>status_code = 404, json_body = Some (JStr ''Not Found'')\<rparr>)
          ''jobs/gb/search/1'' None) = Inl AttributeError \<and>
   snd (make_request test_credentials (always \<lparr>status_code = 502, json_body = Some (JArr [])\<rparr>)
          ''jobs/gb/search/1'' None) = Inl AttributeError"
  by (simp add: make_request_def Let_def always_def response_json_def json_get_def)

section \<open>The dictionaries of the wrappers\<close>

lemma search_jobs_params_distinct: "distinct (map fst (search_jobs_params a))"
  by (simp add: search_jobs_params_def Let_def distinct_set)

lemma search_jobs_params_clean: "no_empty_values (search_jobs_params a)"
proof -
  have "no_empty_values [(''results_per_page'', PInt (results_per_page a))]"
    by (simp add: no_empty_values_def)
  then show ?thesis
    by (simp add: search_jobs_params_def Let_def clean_set)
qed

lemma filter_params_clean: "no_empty_values (filter_params kw loc cat)"
proof -
  have "no_empty_values []" by (simp add: no_empty_values_def)
  then show ?thesis by (simp add: filter_params_def Let_def clean_set)
qed

lemma salary_history_params_clean: "no_empty_values (salary_history_params kw loc cat m)"
proof -
  have "no_empty_values []" by (simp add: no_empty_values_def)
  then show ?thesis by (simp add: salary_history_params_def Let_def clean_set)
qed

lemma filter_params_distinct: "distinct (map fst (filter_params kw loc cat))"
  by (simp add: filter_params_def Let_def distinct_set)

lemma salary_history_params_distinct: "distinct (map fst (salary_history_params kw loc cat m))"
  by (simp add: salary_history_params_def Let_def distinct_set)

lemma call_tool_forward:
  "call_tool cfg net c = make_request cfg net (tool_endpoint c) (tool_params c)"
  by (cases c)
    (simp_all add: search_jobs_def get_categories_def get_salary_histogram_def
      get_top_companies_def get_geodata_def get_salary_history_def get_api_version_def)

lemma tool_params_clean: "tool_params c = Some d \<Longrightarrow> no_empty_values d"
  by (cases c) (auto simp: search_jobs_params_clean filter_params_clean salary_history_params_clean)

lemma tool_params_distinct: "tool_params c = Some d \<Longrightarrow> distinct (map fst d)"
  by (cases c) (auto simp: search_jobs_params_distinct filter_params_distinct salary_history_params_distinct)

lemma unset_keys_absent:
  "tool_params c = Some d \<Longrightarrow> k \<in> set (unset_keys c) \<Longrightarrow> map_of d k = None"
proof (cases c)
  case (SearchJobs a)
  assume "tool_params c = Some d" "k \<in> set (unset_keys c)"
  with SearchJobs show ?thesis
    by (auto simp: key_if_unset_def search_jobs_params_def Let_def lookup_set split: option.splits)
qed (auto simp: key_if_unset_def filter_params_def salary_history_params_def Let_def lookup_set
       split: option.splits)

text \<open>
  C3. Whatever tool is called, the dictionary its wrapper hands to the dispatcher
  has no key for an optional argument that was left at \<^verbatim>\<open>None\<close>, and none of its
  entries holds \<^verbatim>\<open>None\<close> or the empty string.
\<close>

theorem unset_arguments_excluded:
  assumes "tool_params c = Some d"
  shows "call_tool cfg net c = make_request cfg net (tool_endpoint c) (Some d) \<and>
         (\<forall>k \<in> set (unset_keys c). k \<notin> fst ` set d) \<and>
         (\<forall>(k, v) \<in> set d. v \<noteq> PNone \<and> v \<noteq> PStr [])"
proof (intro conjI)
  show "call_tool cfg net c = make_request cfg net (tool_endpoint c) (Some d)"
    using assms by (simp add: call_tool_forward)
  show "\<forall>k \<in> set (unset_keys c). k \<notin> fst ` set d"
    using unset_keys_absent [OF assms] by (simp add: map_of_eq_None_iff)
  show "\<forall>(k, v) \<in> set d. v \<noteq> PNone \<and> v \<noteq> PStr []"
    using tool_params_clean [OF assms] by (simp add: no_empty_values_def)
qed


theorem unset_arguments_excluded_witness:
  "tool_params (GetSalaryHistory ''gb'' (Some ''python'') None (Some []) None) = Some [(''what'', PStr ''python'')] \<and>
   unset_keys (GetSalaryHistory ''gb'' (Some ''python'') None (Some []) None) = [''where'', ''months''] \<and>
   ''where'' \<notin> fst ` set [(''what'', PStr ''python'')] \<and>
   ''months'' \<notin> fst ` set [(''what'', PStr ''python'')]"
proof -
  have h: "tool_params (GetSalaryHistory ''gb'' (Some ''python'') None (Some []) None) = Some [(''what'', PStr ''python'')]"
    by (simp add: salary_history_params_def Let_def set_str_def set_int_def dict_set_def)
  have u: "unset_keys (GetSalaryHistory ''gb'' (Some ''python'') None (Some []) None) = [''where'', ''months'']"
    by (simp add: key_if_unset_def)
  from unset_arguments_excluded [OF h, of test_credentials "always \<lparr>status_code = 200, json_body = None\<rparr>"]
  have "\<forall>k \<in> set (unset_keys (GetSalaryHistory ''gb'' (Some ''python'') None (Some []) None)).
          k \<notin> fst ` set [(''what'', PStr ''python'')]"
    by (rule conjunct1 [OF conjunct2])
  with h u show ?thesis by simp
qed


lemma search_jobs_params_nonempty: "search_jobs_params a \<noteq> []"
proof -
  have "map_of (search_jobs_params a) ''results_per_page'' = Some (PInt (results_per_page a))"
    by (simp add: search_jobs_params_def Let_def lookup_set)
  then show ?thesis by auto
qed

lemma search_jobs_query_lookup:
  "map (\<lambda>r. map_of (query r) k) (fst (search_jobs cfg net a)) =
     [case map_of (search_jobs_params a) k of
        None \<Rightarrow> map_of (get_auth_params cfg) k
      | Some v \<Rightarrow> Some v]"
  by (simp add: search_jobs_def make_request_requests search_jobs_params_nonempty
      map_of_dict_update [OF search_jobs_params_distinct] map_add_def)

lemma search_jobs_cong:
  "search_jobs_params a = search_jobs_params b \<Longrightarrow> country a = country b \<Longrightarrow> page a = page b \<Longrightarrow>
   search_jobs cfg net a = search_jobs cfg net b"
  by (simp add: search_jobs_def search_jobs_endpoint_def)

text \<open>
  C7. A numeric filter of \<^verbatim>\<open>search_jobs\<close> that is zero is dropped like one that was
  not supplied: the dictionary built, the request sent and the outcome are the
  same. Any other value is in the dictionary, and in the query of the request
  sent, as it is.
\<close>

theorem zero_filters_dropped:
  "map_of (search_jobs_params a) ''salary_min'' =
     (case salary_min a of None \<Rightarrow> None | Some i \<Rightarrow> if i = 0 then None else Some (PInt i)) \<and>
   map_of (search_jobs_params a) ''salary_max'' =
     (case salary_max a of None \<Rightarrow> None | Some i \<Rightarrow> if i = 0 then None else Some (PInt i)) \<and>
   map_of (search_jobs_params a) ''max_days_old'' =
     (case max_days_old a of None \<Rightarrow> None | Some i \<Rightarrow> if i = 0 then None else Some (PInt i)) \<and>
   search_jobs_params (a\<lparr>salary_min := Some 0\<rparr>) = search_jobs_params (a\<lparr>salary_min := None\<rparr>) \<and>
   search_jobs_params (a\<lparr>salary_max := Some 0\<rparr>) = search_jobs_params (a\<lparr>salary_max := None\<rparr>) \<and>
   search_jobs_params (a\<lparr>max_days_old := Some 0\<rparr>) = search_jobs_params (a\<lparr>max_days_old := None\<rparr>) \<and>
   map (\<lambda>r. map_of (query r) ''salary_min'') (fst (search_jobs cfg net a)) =
     [case salary_min a of None \<Rightarrow> None | Some i \<Rightarrow> if i = 0 then None else Some (PInt i)] \<and>
   map (\<lambda>r. map_of (query r) ''salary_max'') (fst (search_jobs cfg net a)) =
     [case salary_max a of None \<Rightarrow> None | Some i \<Rightarrow> if i = 0 then None else Some (PInt i)] \<and>
   map (\<lambda>r. map_of (query r) ''max_days_old'') (fst (search_jobs cfg net a)) =
     [case max_days_old a of None \<Rightarrow> None | Some i \<Rightarrow> if i = 0 then None else Some (PInt i)] \<and>
   search_jobs cfg net (a\<lparr>salary_min := Some 0\<rparr>) = search_jobs cfg net (a\<lparr>salary_min := None\<rparr>) \<and>
   search_jobs cfg net (a\<lparr>salary_max := Some 0\<rparr>) = search_jobs cfg net (a\<lparr>salary_max := None\<rparr>) \<and>
   search_jobs cfg net (a\<lparr>max_days_old := Some 0\<rparr>) = search_jobs cfg net (a\<lparr>max_days_old := None\<rparr>)"
proof (intro conjI)
  show smin: "map_of (search_jobs_params a) ''salary_min'' =
     (case salary_min a of None \<Rightarrow> None | Some i \<Rightarrow> if i = 0 then None else Some (PInt i))"
    by (simp add: search_jobs_params_def Let_def lookup_set split: option.splits)
  show smax: "map_of (search_jobs_params a) ''salary_max'' =
     (case salary_max a of None \<Rightarrow> None | Some i \<Rightarrow> if i = 0 then None else Some (PInt i))"
    by (simp add: search_jobs_params_def Let_def lookup_set split: option.splits)
  show days: "map_of (search_jobs_params a) ''max_days_old'' =
     (case max_days_old a of None \<Rightarrow> None | Some i \<Rightarrow> if i = 0 then None else Some (PInt i))"
    by (simp add: search_jobs_params_def Let_def lookup_set split: option.splits)
  show pmin: "search_jobs_params (a\<lparr>salary_min := Some 0\<rparr>) = search_jobs_params (a\<lparr>salary_min := None\<rparr>)"
    by (simp add: search_jobs_params_def set_int_def)
  show pmax: "search_jobs_params (a\<lparr>salary_max := Some 0\<rparr>) = search_jobs_params (a\<lparr>salary_max := None\<rparr>)"
    by (simp add: search_jobs_params_def set_int_def)
  show pdays: "search_jobs_params (a\<lparr>max_days_old := Some 0\<rparr>) = search_jobs_params (a\<lparr>max_days_old := None\<rparr>)"
    by (simp add: search_jobs_params_def set_int_def)
  show "map (\<lambda>r. map_of (query r) ''salary_min'') (fst (search_jobs cfg net a)) =
     [case salary_min a of None \<Rightarrow> None | Some i \<Rightarrow> if i = 0 then None else Some (PInt i)]"
    unfolding search_jobs_query_lookup smin
    by (simp add: get_auth_params_def split: option.splits)
  show "map (\<lambda>r. map_of (query r) ''salary_max'') (fst (search_jobs cfg net a)) =
     [case salary_max a of None \<Rightarrow> None | Some i \<Rightarrow> if i = 0 then None else Some (PInt i)]"
    unfolding search_jobs_query_lookup smax
    by (simp add: get_auth_params_def split: option.splits)
  show "map (\<lambda>r. map_of (query r) ''max_days_old'') (fst (search_jobs cfg net a)) =
     [case max_days_old a of None \<Rightarrow> None | Some i \<Rightarrow> if i = 0 then None else Some (PInt i)]"
    unfolding search_jobs_query_lookup days
    by (simp add: get_auth_params_def split: option.splits)
  show "search_jobs cfg net (a\<lparr>salary_min := Some 0\<rparr>) = search_jobs cfg net (a\<lparr>salary_min := None\<rparr>)"
    by (rule search_jobs_cong [OF pmin]) simp_all
  show "search_jobs cfg net (a\<lparr>salary_max := Some 0\<rparr>) = search_jobs cfg net (a\<lparr>salary_max := None\<rparr>)"
    by (rule search_jobs_cong [OF pmax]) simp_all
  show "search_jobs cfg net (a\<lparr>max_days_old := Some 0\<rparr>) = search_jobs cfg net (a\<lparr>max_days_old := None\<rparr>)"
    by (rule search_jobs_cong [OF pdays]) simp_all
qed

theorem zero_filters_dropped_witness:
  "map_of (search_jobs_params ((default_search_args ''gb'')\<lparr>salary_min := Some 50000, salary_max := Some 90000, max_days_old := Some 0\<rparr>)) ''salary_min'' = Some (PInt 50000) \<and>
   map_of (search_jobs_params ((default_search_args ''gb'')\<lparr>salary_min := Some 50000, salary_max := Some 90000, max_days_old := Some 0\<rparr>)) ''salary_max'' = Some (PInt 90000) \<and>
   map_of (search_jobs_params ((default_search_args ''gb'')\<lparr>salary_min := Some 50000, salary_max := Some 90000, max_days_old := Some 0\<rparr>)) ''max_days_old'' = None \<and>
   map (\<lambda>r. map_of (query r) ''salary_min'') (fst (search_jobs test_credentials (always \<lparr>status_code = 200, json_body = Some (JObj [])\<rparr>) ((default_search_args ''gb'')\<lparr>salary_min := Some 50000, salary_max := Some 90000, max_days_old := Some 0\<rparr>)))
     = [Some (PInt 50000)] \<and>
   map (\<lambda>r. map_of (query r) ''salary_max'') (fst (search_jobs test_credentials (always \<lparr>status_code = 200, json_body = Some (JObj [])\<rparr>) ((default_search_args ''gb'')\<lparr>salary_min := Some 50000, salary_max := Some 90000, max_days_old := Some 0\<rparr>)))
     = [Some (PInt 90000)] \<and>
   map (\<lambda>r. map_of (query r) ''max_days_old'') (fst (search_jobs test_credentials (always \<lparr>status_code = 200, json_body = Some (JObj [])\<rparr>) ((default_search_args ''gb'')\<lparr>salary_min := Some 50000, salary_max := Some 90000, max_days_old := Some 0\<rparr>)))
     = [None]"
proof -
  note t = zero_filters_dropped [of "(default_search_args ''gb'')\<lparr>salary_min := Some 50000, salary_max := Some 90000, max_days_old := Some 0\<rparr>" test_credentials "(always \<lparr>status_code = 200, json_body = Some (JObj [])\<rparr>)"]
  note t3 = conjunct2 [OF conjunct2 [OF conjunct2 [OF t]]]
  note t6 = conjunct2 [OF conjunct2 [OF conjunct2 [OF t3]]]
  have 1: "map_of (search_jobs_params ((default_search_args ''gb'')\<lparr>salary_min := Some 50000, salary_max := Some 90000, max_days_old := Some 0\<rparr>)) ''salary_min'' = Some (PInt 50000)"
    using conjunct1 [OF t] by (simp add: default_search_args_def)
  have 2: "map_of (search_jobs_params ((default_search_args ''gb'')\<lparr>salary_min := Some 50000, salary_max := Some 90000, max_days_old := Some 0\<rparr>)) ''salary_max'' = Some (PInt 90000)"
    using conjunct1 [OF conjunct2 [OF t]] by (simp add: default_search_args_def)
  have 3: "map_of (search_jobs_params ((default_search_args ''gb'')\<lparr>salary_min := Some 50000, salary_max := Some 90000, max_days_old := Some 0\<rparr>)) ''max_days_old'' = None"
    using conjunct1 [OF conjunct2 [OF conjunct2 [OF t]]] by (simp add: default_search_args_def)
  have 4: "map (\<lambda>r. map_of (query r) ''salary_min'') (fst (search_jobs test_credentials (always \<lparr>status_code = 200, json_body = Some (JObj [])\<rparr>) ((default_search_args ''gb'')\<lparr>salary_min := Some 50000, salary_max := Some 90000, max_days_old := Some 0\<rparr>)))
     = [Some (PInt 50000)]"
    using conjunct1 [OF t6] by (simp add: default_search_args_def)
  have 5: "map (\<lambda>r. map_of (query r) ''salary_max'') (fst (search_jobs test_credentials (always \<lparr>status_code = 200, json_body = Some (JObj [])\<rparr>) ((default_search_args ''gb'')\<lparr>salary_min := Some 50000, salary_max := Some 90000, max_days_old := Some 0\<rparr>)))
     = [Some (PInt 90000)]"
    using conjunct1 [OF conjunct2 [OF t6]] by (simp add: default_search_args_def)
  have 6: "map (\<lambda>r. map_of (query r) ''max_days_old'') (fst (search_jobs test_credentials (always \<lparr>status_code = 200, json_body = Some (JObj [])\<rparr>) ((default_search_args ''gb'')\<lparr>salary_min := Some 50000, salary_max := Some 90000, max_days_old := Some 0\<rparr>)))
     = [None]"
    using conjunct1 [OF conjunct2 [OF conjunct2 [OF t6]]] by (simp add: default_search_args_def)
  show ?thesis by (intro conjI 1 2 3 4 5 6)
qed

text \<open>
  C10. The dictionary of \<^verbatim>\<open>search_jobs\<close> always maps \<^verbatim>\<open>results_per_page\<close> to the
  value of the argument, 10 by default, and so does the query of the request
  sent; with every other argument at its default it is the only entry.
\<close>

theorem results_per_page_always_sent:
  "map_of (search_jobs_params a) ''results_per_page'' = Some (PInt (results_per_page a)) \<and>
   search_jobs_params (default_search_args c) = [(''results_per_page'', PInt 10)] \<and>
   map (\<lambda>r. map_of (query r) ''results_per_page'') (fst (search_jobs cfg net a))
     = [Some (PInt (results_per_page a))]"
proof (intro conjI)
  show look: "map_of (search_jobs_params a) ''results_per_page'' = Some (PInt (results_per_page a))"
    by (simp add: search_jobs_params_def Let_def lookup_set)
  show "search_jobs_params (default_search_args c) = [(''results_per_page'', PInt 10)]"
    by (simp add: search_jobs_params_def default_search_args_def Let_def set_str_def set_int_def set_flag_def)
  have "search_jobs_params a \<noteq> []"
    using look by auto
  then show "map (\<lambda>r. map_of (query r) ''results_per_page'') (fst (search_jobs cfg net a))
     = [Some (PInt (results_per_page a))]"
    using look
    by (simp add: search_jobs_def make_request_requests
        map_of_dict_update [OF search_jobs_params_distinct] map_add_def)
qed

section \<open>Decimal text\<close>

lemma digit_cases: "d < 10 \<Longrightarrow> d \<in> {0, 1, 2, 3, 4, 5, 6, 7, 8, 9::nat}"
  by auto

lemma digit_val_digit_char: "d < 10 \<Longrightarrow> digit_val (digit_char d) = d"
  by (drule digit_cases) (auto simp: digit_val_def digit_char_def)

lemma digit_char_not_minus: "d < 10 \<Longrightarrow> digit_char d \<noteq> CHR ''-''"
  by (drule digit_cases) (auto simp: digit_char_def)

lemma parse_nat_snoc: "parse_nat (s @ [c]) = 10 * parse_nat s + digit_val c"
  by (simp add: parse_nat_def)

lemma parse_nat_str_nat: "parse_nat (str_nat n) = n"
proof (induction n rule: str_nat.induct)
  case (1 n)
  show ?case
  proof (cases "n < 10")
    case True
    then show ?thesis
      by (subst str_nat.simps) (simp add: parse_nat_def digit_val_digit_char)
  next
    case False
    then have "parse_nat (str_nat n) = 10 * parse_nat (str_nat (n div 10)) + digit_val (digit_char (n mod 10))"
      by (subst str_nat.simps) (simp add: parse_nat_snoc)
    also have "\<dots> = 10 * (n div 10) + n mod 10"
      using "1.IH" [OF False] by (simp add: digit_val_digit_char)
    finally show ?thesis by simp
  qed
qed

lemma str_nat_head: "\<exists>c t. str_nat n = c # t \<and> c \<noteq> CHR ''-''"
proof (induction n rule: str_nat.induct)
  case (1 n)
  show ?case
  proof (cases "n < 10")
    case True
    then show ?thesis
      by (subst str_nat.simps) (simp add: digit_char_not_minus)
  next
    case False
    from "1.IH" [OF False] obtain c t where "str_nat (n div 10) = c # t" "c \<noteq> CHR ''-''"
      by blast
    with False show ?thesis
      by (subst str_nat.simps) simp
  qed
qed

lemma parse_int_str_int: "parse_int (str_int i) = i"
proof (cases "i < 0")
  case True
  then show ?thesis
    by (simp add: str_int_def parse_int_def parse_nat_str_nat)
next
  case False
  obtain c t where ct: "str_nat (nat i) = c # t" "c \<noteq> CHR ''-''"
    using str_nat_head by blast
  have "parse_int (str_nat (nat i)) = int (parse_nat (str_nat (nat i)))"
    using ct by (simp add: parse_int_def)
  with False show ?thesis
    by (simp add: str_int_def parse_nat_str_nat)
qed

text \<open>
  C6. For every country string and every page, the one request of \<^verbatim>\<open>search_jobs\<close>
  goes to \<^verbatim>\<open>jobs/{country}/search/{page}\<close> under the base URL, the page written as
  the decimal text of the integer, which reads back as that integer.
\<close>

theorem search_jobs_endpoint_path:
  "map url (fst (search_jobs cfg net a)) =
     [''https://api.adzuna.com/v1/api/jobs/'' @ country a @ ''/search/'' @ str_int (page a)] \<and>
   search_jobs_endpoint a = ''jobs/'' @ country a @ ''/search/'' @ str_int (page a) \<and>
   parse_int (str_int (page a)) = page a"
  by (simp add: search_jobs_def make_request_requests search_jobs_endpoint_def BASE_URL_def
      parse_int_str_int)

text \<open>
  C8. \<^verbatim>\<open>get_categories(country)\<close> issues one request, to \<^verbatim>\<open>jobs/{country}/categories\<close>
  under the base URL, whose query holds the two credentials and nothing else.
\<close>

theorem get_categories_request:
  "fst (get_categories cfg net c) =
     [\<lparr>url = ''https://api.adzuna.com/v1/api/jobs/'' @ c @ ''/categories'',
       query = [(''app_id'', PStr (app_id cfg)), (''app_key'', PStr (app_key cfg))],
       timeout = 30\<rparr>]"
  by (simp add: get_categories_def make_request_requests BASE_URL_def get_auth_params_def)

text \<open>
  C5. Without extra parameters the query the dispatcher sends is the credential
  pair. With extra parameters it is the union of the pair and the extra
  parameters, an extra parameter winning where a key collides.
\<close>

theorem make_request_query_union:
  "map query (fst (make_request cfg net ep None))
     = [[(''app_id'', PStr (app_id cfg)), (''app_key'', PStr (app_key cfg))]] \<and>
   (distinct (map fst d) \<longrightarrow>
      (\<exists>q. map query (fst (make_request cfg net ep (Some d))) = [q] \<and>
           map_of q = map_of [(''app_id'', PStr (app_id cfg)), (''app_key'', PStr (app_key cfg))] ++ map_of d \<and>
           distinct (map fst q)))"
proof (intro conjI impI)
  show "map query (fst (make_request cfg net ep None))
     = [[(''app_id'', PStr (app_id cfg)), (''app_key'', PStr (app_key cfg))]]"
    by (simp add: make_request_requests get_auth_params_def)
next
  assume dist: "distinct (map fst d)"
  let ?auth = "[(''app_id'', PStr (app_id cfg)), (''app_key'', PStr (app_key cfg))]"
  let ?q = "if d \<noteq> [] then dict_update ?auth d else ?auth"
  have sent: "map query (fst (make_request cfg net ep (Some d))) = [?q]"
    by (simp add: make_request_requests get_auth_params_def)
  have auth: "distinct (map fst ?auth)" by simp
  have union: "map_of ?q = map_of ?auth ++ map_of d"
  proof (cases "d = []")
    case True
    then show ?thesis by simp
  next
    case False
    then show ?thesis by (simp add: map_of_dict_update [OF dist])
  qed
  have dq: "distinct (map fst ?q)"
    using distinct_dict_update [OF auth, of d] auth by (cases "d = []") simp_all
  show "\<exists>q. map query (fst (make_request cfg net ep (Some d))) = [q] \<and>
           map_of q = map_of ?auth ++ map_of d \<and> distinct (map fst q)"
    by (rule exI [of _ ?q], intro conjI, rule sent, rule union, rule dq)
qed


theorem make_request_query_union_witness:
  "distinct (map fst [(''what'', PStr ''python''), (''app_id'', PStr ''other'')]) \<and>
   (\<exists>q. map query (fst (make_request test_credentials (always \<lparr>status_code = 200, json_body = None\<rparr>)
                         ''jobs/gb/search/1'' (Some [(''what'', PStr ''python''), (''app_id'', PStr ''other'')]))) = [q] \<and>
        map_of q ''app_id'' = Some (PStr ''other'') \<and>
        map_of q ''app_key'' = Some (PStr ''test_app_key'') \<and>
        map_of q ''what'' = Some (PStr ''python'') \<and>
        map_of q ''where'' = None)"
proof -
  have h: "distinct (map fst [(''what'', PStr ''python''), (''app_id'', PStr ''other'')])"
    by simp
  note t = make_request_query_union
    [of test_credentials "always \<lparr>status_code = 200, json_body = None\<rparr>" "''jobs/gb/search/1''"
        "[(''what'', PStr ''python''), (''app_id'', PStr ''other'')]"]
  from mp [OF conjunct2 [OF t] h] obtain q where
    q: "map query (fst (make_request test_credentials (always \<lparr>status_code = 200, json_body = None\<rparr>)
                         ''jobs/gb/search/1'' (Some [(''what'', PStr ''python''), (''app_id'', PStr ''other'')]))) = [q]"
    and m: "map_of q = map_of [(''app_id'', PStr (app_id test_credentials)), (''app_key'', PStr (app_key test_credentials))]
               ++ map_of [(''what'', PStr ''python''), (''app_id'', PStr ''other'')]"
    by (elim exE conjE)
  have l: "map_of q ''app_id'' = Some (PStr ''other'')" "map_of q ''app_key'' = Some (PStr ''test_app_key'')"
    "map_of q ''what'' = Some (PStr ''python'')" "map_of q ''where'' = None"
    by (simp_all add: m test_credentials_def map_add_def)
  show ?thesis
    by (rule conjI [OF h], rule exI [of _ q], intro conjI, rule q, (rule l)+)
qed

section \<open>Credentials\<close>

lemma tool_params_no_credentials:
  "tool_params c = Some d \<Longrightarrow> map_of d ''app_id'' = None \<and> map_of d ''app_key'' = None"
  by (cases c)
    (auto simp: search_jobs_params_def filter_params_def salary_history_params_def Let_def lookup_set)

lemma call_tool_credentials:
  "map (\<lambda>r. (map_of (query r) ''app_id'', map_of (query r) ''app_key'')) (fst (call_tool cfg net c))
     = [(Some (PStr (app_id cfg)), Some (PStr (app_key cfg)))]"
proof (cases "tool_params c")
  case None
  then show ?thesis
    by (simp add: call_tool_forward make_request_requests get_auth_params_def)
next
  case (Some d)
  show ?thesis
    using tool_params_no_credentials [OF Some]
    by (simp add: call_tool_forward make_request_requests Some get_auth_params_def
        map_of_dict_update [OF tool_params_distinct [OF Some]] map_add_def)
qed

text \<open>
  C9. When either credential variable is unset or empty the module raises the
  configuration error and nothing starts. When both are non-empty the start
  succeeds with those credentials, and the request of every tool call carries
  both of them.
\<close>

theorem startup_requires_credentials:
  "(env ''ADZUNA_APP_ID'' \<in> {None, Some []} \<or> env ''ADZUNA_APP_KEY'' \<in> {None, Some []} \<longrightarrow>
      startup env = Inl (ValueError missing_credentials_message)) \<and>
   (\<forall>i k. env ''ADZUNA_APP_ID'' = Some i \<and> i \<noteq> [] \<and> env ''ADZUNA_APP_KEY'' = Some k \<and> k \<noteq> [] \<longrightarrow>
      startup env = Inr \<lparr>app_id = i, app_key = k\<rparr> \<and>
      (\<forall>net c. map (\<lambda>r. (map_of (query r) ''app_id'', map_of (query r) ''app_key''))
                   (fst (call_tool \<lparr>app_id = i, app_key = k\<rparr> net c))
                 = [(Some (PStr i), Some (PStr k))]))"
proof (intro conjI allI impI)
  assume "env ''ADZUNA_APP_ID'' \<in> {None, Some []} \<or> env ''ADZUNA_APP_KEY'' \<in> {None, Some []}"
  then show "startup env = Inl (ValueError missing_credentials_message)"
    by (auto simp: startup_def falsy_env_def Let_def)
next
  fix i k
  assume "env ''ADZUNA_APP_ID'' = Some i \<and> i \<noteq> [] \<and> env ''ADZUNA_APP_KEY'' = Some k \<and> k \<noteq> []"
  then show "startup env = Inr \<lparr>app_id = i, app_key = k\<rparr>"
    by (simp add: startup_def falsy_env_def Let_def)
next
  fix i k net c
  show "map (\<lambda>r. (map_of (query r) ''app_id'', map_of (query r) ''app_key''))
          (fst (call_tool \<lparr>app_id = i, app_key = k\<rparr> net c)) = [(Some (PStr i), Some (PStr k))]"
    using call_tool_credentials [of "\<lparr>app_id = i, app_key = k\<rparr>" net c] by simp
qed


theorem startup_requires_credentials_witness:
  "startup (map_of [(''ADZUNA_APP_ID'', ''test_app_id'')]) = Inl (ValueError missing_credentials_message) \<and>
   startup (map_of [(''ADZUNA_APP_ID'', ''test_app_id''), (''ADZUNA_APP_KEY'', [])])
     = Inl (ValueError missing_credentials_message) \<and>
   startup (map_of [(''ADZUNA_APP_ID'', ''test_app_id''), (''ADZUNA_APP_KEY'', ''test_app_key'')])
     = Inr \<lparr>app_id = ''test_app_id'', app_key = ''test_app_key''\<rparr> \<and>
   map (\<lambda>r. (map_of (query r) ''app_id'', map_of (query r) ''app_key''))
     (fst (call_tool \<lparr>app_id = ''test_app_id'', app_key = ''test_app_key''\<rparr>
             (always \<lparr>status_code = 200, json_body = Some (JObj [])\<rparr>)
             (GetSalaryHistogram ''gb'' (Some ''python'') None None)))
     = [(Some (PStr ''test_app_id''), Some (PStr ''test_app_key''))]"
proof -
  have a: "startup (map_of [(''ADZUNA_APP_ID'', ''test_app_id'')]) = Inl (ValueError missing_credentials_message)"
    by (rule mp [OF conjunct1 [OF startup_requires_credentials]]) simp
  have b: "startup (map_of [(''ADZUNA_APP_ID'', ''test_app_id''), (''ADZUNA_APP_KEY'', [])])
             = Inl (ValueError missing_credentials_message)"
    by (rule mp [OF conjunct1 [OF startup_requires_credentials]]) simp
  note t = conjunct2 [OF startup_requires_credentials
      [of "map_of [(''ADZUNA_APP_ID'', ''test_app_id''), (''ADZUNA_APP_KEY'', ''test_app_key'')]"],
      THEN spec [where x = "''test_app_id''"], THEN spec [where x = "''test_app_key''"], THEN mp]
  have c: "startup (map_of [(''ADZUNA_APP_ID'', ''test_app_id''), (''ADZUNA_APP_KEY'', ''test_app_key'')])
             = Inr \<lparr>app_id = ''test_app_id'', app_key = ''test_app_key''\<rparr> \<and>
           (\<forall>net c. map (\<lambda>r. (map_of (query r) ''app_id'', map_of (query r) ''app_key''))
                   (fst (call_tool \<lparr>app_id = ''test_app_id'', app_key = ''test_app_key''\<rparr> net c))
                 = [(Some (PStr ''test_app_id''), Some (PStr ''test_app_key''))])"
    by (rule t) simp
  show ?thesis
    by (intro conjI, rule a, rule b, rule conjunct1 [OF c],
        rule conjunct2 [OF c, THEN spec, THEN spec])
qed

theorem search_jobs_endpoint_path_witness:
  "search_jobs_endpoint ((default_search_args ''us'')\<lparr>page := 5\<rparr>) = ''jobs/us/search/5'' \<and>
   parse_int ''5'' = 5"
  using search_jobs_endpoint_path
    [of test_credentials "always \<lparr>status_code = 200, json_body = None\<rparr>"
        "(default_search_args ''us'')\<lparr>page := 5\<rparr>"]
  by (simp add: default_search_args_def str_int_def str_nat.simps digit_char_def)

theorem get_categories_request_witness:
  "fst (get_categories test_credentials (always \<lparr>status_code = 200, json_body = None\<rparr>) ''gb'') =
     [\<lparr>url = ''https://api.adzuna.com/v1/api/jobs/gb/categories'',
       query = [(''app_id'', PStr ''test_app_id''), (''app_key'', PStr ''test_app_key'')],
       timeout = 30\<rparr>]"
  using get_categories_request [of test_credentials "always \<lparr>status_code = 200, json_body = None\<rparr>" "''gb''"]
  by (simp add: test_credentials_def)

section \<open>Instances\<close>


theorem results_per_page_always_sent_witness:
  "map_of (search_jobs_params ((default_search_args ''gb'')\<lparr>results_per_page := 50, keywords_arg := Some ''python''\<rparr>))
     ''results_per_page'' = Some (PInt 50) \<and>
   search_jobs_params (default_search_args ''gb'') = [(''results_per_page'', PInt 10)]"
  using results_per_page_always_sent
    [of "(default_search_args ''gb'')\<lparr>results_per_page := 50, keywords_arg := Some ''python''\<rparr>" "''gb''"
        test_credentials "always \<lparr>status_code = 200, json_body = None\<rparr>"]
  by (simp add: default_search_args_def)

end
